theory Spec2Isabelle
  imports Complex_Main "HOL-Library.Multiset"
begin

section \<open>Rate limiter (src/services/rate-limiter.ts)\<close>

text \<open>
  The durable object \<^verbatim>\<open>RateLimiter\<close> keeps an in-memory map \<^verbatim>\<open>requests\<close> from
  keys to \<^verbatim>\<open>{ count, resetTime }\<close> objects and a durable key-value storage holding
  objects of the same shape. Counts, limits and timestamps (epoch milliseconds) are
  integers (section 6 of the specification types them as \<open>int\<close>). \<^verbatim>\<open>Date.now()\<close> is
  an explicit argument \<open>now\<close>.
\<close>

record window =
  count :: int
  resetTime :: int

text \<open>\<^verbatim>\<open>RateLimitResult\<close>; the field \<^verbatim>\<open>resetTime\<close> of the result is called
  \<open>resetTime_r\<close> here, because the window record owns the name.\<close>

record RateLimitResult =
  allowed :: bool
  remaining :: int
  resetTime_r :: int
  retryAfter :: "int option"

record RateLimiter =
  requests :: "string \<rightharpoonup> window"
  storage :: "string \<rightharpoonup> window"

text \<open>The object as its constructor leaves it, on empty durable storage.\<close>

definition new_RateLimiter :: RateLimiter where
  "new_RateLimiter = \<lparr>requests = Map.empty, storage = Map.empty\<rparr>"

text \<open>\<^verbatim>\<open>Math.ceil(a / b)\<close> on integers with \<open>b > 0\<close>.\<close>

definition ceil_div :: "int \<Rightarrow> int \<Rightarrow> int" where
  "ceil_div a b = - ((- a) div b)"

text \<open>
  The first step of \<^verbatim>\<open>checkRateLimit\<close>: the object from the in-memory map, else the one
  from storage, else a fresh \<^verbatim>\<open>{ count: 0, resetTime: now + windowMs }\<close>.
\<close>

definition stored_window :: "RateLimiter \<Rightarrow> string \<Rightarrow> window option" where
  "stored_window s key = (case requests s key of Some c \<Rightarrow> Some c | None \<Rightarrow> storage s key)"

definition load_window :: "RateLimiter \<Rightarrow> string \<Rightarrow> int \<Rightarrow> int \<Rightarrow> window" where
  "load_window s key windowMs now =
     (case stored_window s key of
        Some c \<Rightarrow> c
      | None \<Rightarrow> \<lparr>count = 0, resetTime = now + windowMs\<rparr>)"

text \<open>The second step: \<^verbatim>\<open>if (now >= current.resetTime) current = { count: 0, ... }\<close>.\<close>

definition expire_window :: "window \<Rightarrow> int \<Rightarrow> int \<Rightarrow> window" where
  "expire_window current windowMs now =
     (if now \<ge> resetTime current then \<lparr>count = 0, resetTime = now + windowMs\<rparr> else current)"

text \<open>
  \<^verbatim>\<open>RateLimiter.checkRateLimit\<close>. Whatever branch is taken, the in-memory map ends up
  holding \<open>current\<close> under \<open>key\<close> (it is either set explicitly or it is the very object
  that \<^verbatim>\<open>count++\<close> mutates); storage is written only when the request is allowed.
\<close>

definition checkRateLimit ::
  "RateLimiter \<Rightarrow> string \<Rightarrow> int \<Rightarrow> int \<Rightarrow> int \<Rightarrow> RateLimitResult \<times> RateLimiter" where
  "checkRateLimit s key maxRequests windowMs now =
     (let current = expire_window (load_window s key windowMs now) windowMs now;
          ok = count current < maxRequests;
          current = (if ok then current\<lparr>count := count current + 1\<rparr> else current);
          s' = \<lparr>requests = (requests s)(key \<mapsto> current),
                storage = (if ok then (storage s)(key \<mapsto> current) else storage s)\<rparr>
      in (\<lparr>allowed = ok,
           remaining = max 0 (maxRequests - count current),
           resetTime_r = resetTime current,
           retryAfter = (if ok then None else Some (ceil_div (resetTime current - now) 1000))\<rparr>,
          s'))"

text \<open>\<^verbatim>\<open>RateLimiter.handleReset\<close> deletes the key from the map and from storage.\<close>

definition handleReset :: "RateLimiter \<Rightarrow> string \<Rightarrow> bool \<times> RateLimiter" where
  "handleReset s key =
     (True, \<lparr>requests = (requests s)(key := None), storage = (storage s)(key := None)\<rparr>)"

text \<open>\<^verbatim>\<open>RateLimiter.fetch\<close> dispatches on the last path segment of the request.\<close>

datatype request = CheckReq string int int | ResetReq string | OtherReq string

datatype response = CheckResp RateLimitResult | ResetResp bool | NotFound

fun fetch :: "RateLimiter \<Rightarrow> request \<Rightarrow> int \<Rightarrow> response \<times> RateLimiter" where
  "fetch s (CheckReq key maxRequests windowMs) now =
     (case checkRateLimit s key maxRequests windowMs now of (r, s') \<Rightarrow> (CheckResp r, s'))"
| "fetch s (ResetReq key) now = (case handleReset s key of (b, s') \<Rightarrow> (ResetResp b, s'))"
| "fetch s (OtherReq action) now = (NotFound, s)"

text \<open>A sequence of requests, each with the clock reading at which the object handles it.\<close>

fun run :: "RateLimiter \<Rightarrow> (request \<times> int) list \<Rightarrow> RateLimiter" where
  "run s [] = s"
| "run s ((req, now) # rest) = run (snd (fetch s req now)) rest"

text \<open>The count held for a key, in memory and in storage, is at most \<open>m\<close>.\<close>

definition count_within :: "RateLimiter \<Rightarrow> string \<Rightarrow> int \<Rightarrow> bool" where
  "count_within s k m =
     ((case requests s k of None \<Rightarrow> True | Some c \<Rightarrow> count c \<le> m) \<and>
      (case storage s k of None \<Rightarrow> True | Some c \<Rightarrow> count c \<le> m))"

text \<open>Every check on key \<open>k\<close> in the sequence uses the limit \<open>m\<close>.\<close>

fun uses_limit :: "string \<Rightarrow> int \<Rightarrow> request \<times> int \<Rightarrow> bool" where
  "uses_limit k m (CheckReq key maxRequests windowMs, now) = (key = k \<longrightarrow> maxRequests = m)"
| "uses_limit k m (ResetReq key, now) = True"
| "uses_limit k m (OtherReq action, now) = True"

subsection \<open>The service in front of the durable object\<close>

text \<open>
  \<^verbatim>\<open>RateLimitService.checkRateLimit\<close> sends the check to the durable object through the
  \<^verbatim>\<open>RATE_LIMITER\<close> binding inside \<^verbatim>\<open>try\<close>. The binding either reaches the object or
  throws; \<open>now'\<close> is the \<^verbatim>\<open>Date.now()\<close> of the \<^verbatim>\<open>catch\<close> block. The request
  goes to the path \<^verbatim>\<open>/check\<close>, which \<^verbatim>\<open>fetch\<close> hands to \<^verbatim>\<open>checkRateLimit\<close>.
\<close>

record RateLimitConfig =
  maxRequests :: int
  windowMs :: int

datatype actor = Unavailable string | Available RateLimiter

definition service_checkRateLimit ::
  "actor \<Rightarrow> string \<Rightarrow> RateLimitConfig \<Rightarrow> int \<Rightarrow> int \<Rightarrow> RateLimitResult \<times> actor" where
  "service_checkRateLimit env key config now now' =
     (case env of
        Available s \<Rightarrow>
          (case checkRateLimit s key (maxRequests config) (windowMs config) now of
             (r, s') \<Rightarrow> (r, Available s'))
      | Unavailable err \<Rightarrow>
          (\<lparr>allowed = True, remaining = maxRequests config,
            resetTime_r = now' + windowMs config, retryAfter = None\<rparr>, Unavailable err))"

section \<open>Scheduling operations of the database service (src/unnamed/part_005, schema.sql)\<close>

text \<open>
  The two tables the scheduling operations touch. \<^verbatim>\<open>content\<close> has the primary key
  \<^verbatim>\<open>id\<close>, so it is a map from ids to rows; \<^verbatim>\<open>scheduling_queue\<close> is the list of its rows
  in insertion order. Timestamps are ISO strings. Field names of the content row carry
  the suffix \<open>_c\<close> where the queue row has a column of the same name, and \<^verbatim>\<open>id\<close> is
  \<open>id_q\<close>.
\<close>

datatype content_status =
  C_pending | C_generating | C_ready | C_approved | C_rejected | C_scheduled | C_posted | C_failed

datatype content_kind = K_image | K_video | K_text | K_meme | K_story

record ContentRecord =
  type_c :: content_kind
  source_c :: "string option"
  source_url :: "string option"
  prompt :: "string option"
  generated_content_url :: "string option"
  caption :: "string option"
  hashtags :: "string option"
  status_c :: content_status
  ai_provider :: "string option"
  generation_metadata :: "string option"
  created_at_c :: string
  updated_at_c :: string
  scheduled_at :: "string option"
  posted_at :: "string option"

datatype queue_status = Q_queued | Q_scheduled | Q_posting | Q_posted | Q_failed | Q_cancelled

record SchedulingQueueItem =
  id_q :: int
  content_id :: string
  scheduled_time :: string
  fb_post_id :: "string option"
  status :: queue_status
  retry_count :: int
  error_message :: "string option"
  created_at :: string
  updated_at :: string

text \<open>
  \<open>seq\<close> is the \<^verbatim>\<open>AUTOINCREMENT\<close> counter of \<^verbatim>\<open>scheduling_queue\<close>; \<open>foreign_keys\<close> says
  whether the engine enforces \<^verbatim>\<open>FOREIGN KEY (content_id) REFERENCES content(id)\<close>;
  \<open>current_timestamp\<close> is the value \<^verbatim>\<open>CURRENT_TIMESTAMP\<close> has while a statement runs, which
  the two \<^verbatim>\<open>AFTER UPDATE\<close> triggers of the schema write.
\<close>

record db =
  content :: "string \<rightharpoonup> ContentRecord"
  scheduling_queue :: "SchedulingQueueItem list"
  seq :: int
  foreign_keys :: bool
  current_timestamp :: string

datatype db_error = ForeignKeyViolation string | QueueItemNotFound int

text \<open>JavaScript truthiness of an optional string argument.\<close>

fun truthy :: "string option \<Rightarrow> bool" where
  "truthy None = False"
| "truthy (Some s) = (s \<noteq> [])"

text \<open>
  The trigger \<^verbatim>\<open>update_content_timestamp\<close>: after an update of a row that left
  \<^verbatim>\<open>updated_at\<close> as it was, the column is set to \<^verbatim>\<open>CURRENT_TIMESTAMP\<close>. \<open>old\<close> is the row
  before the update and \<open>new\<close> the row after it.
\<close>

definition update_content_timestamp :: "db \<Rightarrow> ContentRecord \<Rightarrow> ContentRecord \<Rightarrow> ContentRecord" where
  "update_content_timestamp d old new =
     (if updated_at_c new = updated_at_c old then new\<lparr>updated_at_c := current_timestamp d\<rparr>
      else new)"

text \<open>
  \<^verbatim>\<open>updateContentStatus\<close>: one \<^verbatim>\<open>UPDATE content SET ... WHERE id = ?\<close>, followed by the
  trigger. \<open>metadata\<close> is the JSON text of the optional argument; \<open>now\<close> and \<open>now'\<close> are
  the two \<^verbatim>\<open>new Date().toISOString()\<close> readings.
\<close>

definition updateContentStatus ::
  "db \<Rightarrow> string \<Rightarrow> content_status \<Rightarrow> string option \<Rightarrow> string \<Rightarrow> string \<Rightarrow> db" where
  "updateContentStatus d i st metadata now now' =
     (case content d i of
        None \<Rightarrow> d
      | Some old \<Rightarrow>
          (let row = old\<lparr>status_c := st, updated_at_c := now\<rparr>;
               row = (case metadata of None \<Rightarrow> row | Some j \<Rightarrow> row\<lparr>generation_metadata := Some j\<rparr>);
               row = (if st = C_posted then row\<lparr>posted_at := Some now'\<rparr> else row);
               row = update_content_timestamp d old row
           in d\<lparr>content := (content d)(i \<mapsto> row)\<rparr>))"

text \<open>\<^verbatim>\<open>getSchedulingQueueItem\<close>: the row with the id, or the exception.\<close>

definition getSchedulingQueueItem :: "db \<Rightarrow> int \<Rightarrow> db_error + SchedulingQueueItem" where
  "getSchedulingQueueItem d i =
     (case find (\<lambda>r. id_q r = i) (scheduling_queue d) of
        None \<Rightarrow> Inl (QueueItemNotFound i)
      | Some r \<Rightarrow> Inr r)"

text \<open>The row id an \<^verbatim>\<open>AUTOINCREMENT\<close> insert gets: one more than every id used so far.\<close>

definition next_id :: "db \<Rightarrow> int" where
  "next_id d = foldr max (map id_q (scheduling_queue d)) (seq d) + 1"

text \<open>
  \<^verbatim>\<open>scheduleContent\<close>: the \<^verbatim>\<open>INSERT\<close> (columns not named take their defaults), the
  status update of the content row, and the read of the inserted row. \<open>now\<close> is the
  timestamp of the insert, \<open>now'\<close> the one \<^verbatim>\<open>updateContentStatus\<close> reads. \<open>scheduledTime\<close>
  is an ISO timestamp, which the \<^verbatim>\<open>DATETIME\<close> column keeps as the text it is.
\<close>

definition scheduleContent ::
  "db \<Rightarrow> string \<Rightarrow> string \<Rightarrow> string \<Rightarrow> string \<Rightarrow> db_error + (SchedulingQueueItem \<times> db)" where
  "scheduleContent d contentId scheduledTime now now' =
     (if foreign_keys d \<and> content d contentId = None then Inl (ForeignKeyViolation contentId)
      else
        (let i = next_id d;
             row = \<lparr>id_q = i, content_id = contentId, scheduled_time = scheduledTime,
                    fb_post_id = None, status = Q_queued, retry_count = 0,
                    error_message = None, created_at = now, updated_at = now\<rparr>;
             d1 = d\<lparr>scheduling_queue := scheduling_queue d @ [row], seq := i\<rparr>;
             d2 = updateContentStatus d1 contentId C_scheduled None now' now'
         in (case getSchedulingQueueItem d2 i of
               Inl e \<Rightarrow> Inl e
             | Inr r \<Rightarrow> Inr (r, d2))))"

text \<open>The trigger \<^verbatim>\<open>update_scheduling_queue_timestamp\<close>, of the same shape.\<close>

definition update_scheduling_queue_timestamp ::
  "db \<Rightarrow> SchedulingQueueItem \<Rightarrow> SchedulingQueueItem \<Rightarrow> SchedulingQueueItem" where
  "update_scheduling_queue_timestamp d old new =
     (if updated_at new = updated_at old then new\<lparr>updated_at := current_timestamp d\<rparr>
      else new)"

text \<open>
  \<^verbatim>\<open>updateSchedulingQueueStatus\<close>: one \<^verbatim>\<open>UPDATE scheduling_queue SET ... WHERE id = ?\<close>,
  with the optional columns set when their argument is truthy, followed by the trigger
  on every row it updated.
\<close>

definition update_row ::
  "db \<Rightarrow> queue_status \<Rightarrow> string option \<Rightarrow> string option \<Rightarrow> string \<Rightarrow> SchedulingQueueItem
     \<Rightarrow> SchedulingQueueItem" where
  "update_row d st fbPostId errorMessage now old =
     (let r = old\<lparr>status := st, updated_at := now\<rparr>;
          r = (if truthy fbPostId then r\<lparr>fb_post_id := fbPostId\<rparr> else r);
          r = (if truthy errorMessage
               then r\<lparr>error_message := errorMessage, retry_count := retry_count r + 1\<rparr> else r)
      in update_scheduling_queue_timestamp d old r)"

definition updateSchedulingQueueStatus ::
  "db \<Rightarrow> int \<Rightarrow> queue_status \<Rightarrow> string option \<Rightarrow> string option \<Rightarrow> string \<Rightarrow> db" where
  "updateSchedulingQueueStatus d i st fbPostId errorMessage now =
     d\<lparr>scheduling_queue :=
         map (\<lambda>r. if id_q r = i then update_row d st fbPostId errorMessage now r else r)
           (scheduling_queue d)\<rparr>"

text \<open>
  The lifecycle graph as section 4.4 of the specification declares it (this definition
  follows the specification, not the code): queued, scheduled, posting, then posted or
  failed; failed back to queued; any non-terminal state to cancelled.
\<close>

fun non_terminal :: "queue_status \<Rightarrow> bool" where
  "non_terminal Q_queued = True"
| "non_terminal Q_scheduled = True"
| "non_terminal Q_posting = True"
| "non_terminal Q_posted = False"
| "non_terminal Q_failed = False"
| "non_terminal Q_cancelled = False"

definition spec_lifecycle_edge :: "queue_status \<Rightarrow> queue_status \<Rightarrow> bool" where
  "spec_lifecycle_edge a b =
     ((a = Q_queued \<and> b = Q_scheduled) \<or> (a = Q_scheduled \<and> b = Q_posting) \<or>
      (a = Q_posting \<and> b = Q_posted) \<or> (a = Q_posting \<and> b = Q_failed) \<or>
      (a = Q_failed \<and> b = Q_queued) \<or> (non_terminal a \<and> b = Q_cancelled))"

text \<open>The queue items of a content id whose status is queued, scheduled or posting.\<close>

definition active_items :: "db \<Rightarrow> string \<Rightarrow> SchedulingQueueItem list" where
  "active_items d cid =
     filter (\<lambda>r. content_id r = cid \<and> non_terminal (status r)) (scheduling_queue d)"

section \<open>Content discovery (src/services/content-discovery.ts)\<close>

text \<open>
  A \<^verbatim>\<open>Date\<close> is its epoch time in milliseconds, \<open>None\<close> for an Invalid Date (whose
  \<^verbatim>\<open>getTime()\<close> is \<^verbatim>\<open>NaN\<close>); \<^verbatim>\<open>Date.now()\<close> is the argument \<open>now\<close>, read once for the run.
  The arithmetic of the quality scores is done over the reals. \<^verbatim>\<open>id\<close> is \<open>id_d\<close>.
\<close>

datatype source_kind = Reddit | Twitter | News | Web_scrape

datatype content_type = Image | Video | Text | Link

record DiscoveredContent =
  id_d :: string
  title :: string
  description :: "string option"
  imageUrl :: "string option"
  videoUrl :: "string option"
  sourceUrl :: string
  source :: source_kind
  sourceName :: string
  author :: "string option"
  score :: "int option"
  engagementCount :: "int option"
  createdAt :: "int option"
  tags :: "string list"
  contentType :: content_type
  quality :: real

text \<open>
  \<^verbatim>\<open>RedditPost\<close>, its fields with the suffix \<open>_p\<close> where \<^verbatim>\<open>DiscoveredContent\<close> has the
  name. \<open>preview_images\<close> lists \<^verbatim>\<open>images[i]?.source?.url\<close> for the elements of
  \<^verbatim>\<open>preview?.images\<close>, and is empty when there is no preview.
\<close>

record RedditPost =
  id_p :: string
  title_p :: string
  selftext :: "string option"
  url :: string
  thumbnail :: "string option"
  preview_images :: "string option list"
  author_p :: string
  score_p :: int
  num_comments :: int
  created_utc :: int
  subreddit :: string
  permalink :: string
  is_video :: bool
  over_18 :: bool

text \<open>
  \<^verbatim>\<open>NewsArticle\<close>. \<open>publishedAt\<close> is the time \<^verbatim>\<open>new Date(article.publishedAt).getTime()\<close>
  gives, \<open>None\<close> when the string is no date (\<^verbatim>\<open>NaN\<close>); \<open>urlToImage\<close> may be null.
\<close>

record NewsArticle =
  title_n :: string
  description_n :: "string option"
  url_n :: string
  urlToImage :: "string option"
  publishedAt :: "int option"
  source_id :: "string option"
  source_name :: string
  content_n :: "string option"

subsection \<open>Strings\<close>

text \<open>\<^verbatim>\<open>s.includes(sub)\<close>.\<close>

fun str_includes :: "string \<Rightarrow> string \<Rightarrow> bool" where
  "str_includes [] sub = (sub = [])"
| "str_includes (c # cs) sub = (take (length sub) (c # cs) = sub \<or> str_includes cs sub)"

text \<open>Lower case of the ASCII letters, the only ones the patterns below contain.\<close>

definition lower_char :: "char \<Rightarrow> char" where
  "lower_char c =
     (let n = (of_char c :: nat) in if 65 \<le> n \<and> n \<le> 90 then char_of (n + 32) else c)"

definition toLowerCase :: "string \<Rightarrow> string" where
  "toLowerCase s = map lower_char s"

definition endsWith :: "string \<Rightarrow> string \<Rightarrow> bool" where
  "endsWith s suf = (length suf \<le> length s \<and> drop (length s - length suf) s = suf)"

text \<open>The test \<^verbatim>\<open>url.match(/\.(jpg|jpeg|png|gif)$/i)\<close>.\<close>

definition is_image_url :: "string \<Rightarrow> bool" where
  "is_image_url u =
     (let l = toLowerCase u
      in endsWith l ''.jpg'' \<or> endsWith l ''.jpeg'' \<or> endsWith l ''.png'' \<or> endsWith l ''.gif'')"

text \<open>\<^verbatim>\<open>s.replace(/&amp;/g, '&')\<close>.\<close>

function replace_amp :: "string \<Rightarrow> string" where
  "replace_amp [] = []"
| "replace_amp (c # cs) =
     (if take 5 (c # cs) = ''&amp;'' then CHR ''&'' # replace_amp (drop 4 cs)
      else c # replace_amp cs)"
  by pat_completeness auto
termination
  by (relation "measure length") auto

subsection \<open>Quality scores\<close>

text \<open>\<^verbatim>\<open>calculateRedditQuality\<close>.\<close>

definition hoursOld_reddit :: "int \<Rightarrow> RedditPost \<Rightarrow> real" where
  "hoursOld_reddit now post = of_int (now - created_utc post * 1000) / (1000 * 60 * 60)"

definition calculateRedditQuality :: "int \<Rightarrow> RedditPost \<Rightarrow> real" where
  "calculateRedditQuality now post =
     (let q = 0;
          q = q + min (of_int (score_p post) / 1000) 0.4;
          q = (if num_comments post > 0 then q + min (of_int (num_comments post) / 100) 0.3 else q);
          q = (if is_video post \<or> is_image_url (url post) then q + 0.2 else q);
          hoursOld = hoursOld_reddit now post;
          q = (if hoursOld < 24 then q + 0.1 * (1 - hoursOld / 24) else q)
      in min q 1)"

text \<open>\<^verbatim>\<open>calculateNewsQuality\<close>. A comparison with \<^verbatim>\<open>NaN\<close> is false.\<close>

definition reputableSources :: "string list" where
  "reputableSources = [''bbc'', ''cnn'', ''reuters'', ''associated press'', ''npr'']"

definition calculateNewsQuality :: "int \<Rightarrow> NewsArticle \<Rightarrow> real" where
  "calculateNewsQuality now article =
     (let q = 0.5;
          q = (if truthy (urlToImage article) then q + 0.2 else q);
          q = (if list_ex (\<lambda>src. str_includes (toLowerCase (source_name article)) src) reputableSources
               then q + 0.2 else q);
          q = (case publishedAt article of
                 None \<Rightarrow> q
               | Some t \<Rightarrow>
                   (let hoursOld = of_int (now - t) / (1000 * 60 * 60)
                    in if hoursOld < 48 then q + 0.1 * (1 - hoursOld / 48) else q))
      in min q 1)"

subsection \<open>Reddit posts to discovered content\<close>

definition reddit_keep :: "RedditPost \<Rightarrow> bool" where
  "reddit_keep post =
     (\<not> over_18 post \<and> score_p post > 10 \<and>
      (str_includes (url post) ''i.redd.it'' \<or> str_includes (url post) ''imgur.com'' \<or>
       length (preview_images post) > 0 \<or> is_video post))"

definition reddit_item :: "int \<Rightarrow> string \<Rightarrow> RedditPost \<Rightarrow> DiscoveredContent" where
  "reddit_item now sub post =
     (let isImage = (\<not> is_video post \<and> (is_image_url (url post) \<or> length (preview_images post) > 0))
      in \<lparr>id_d = ''reddit_'' @ id_p post,
          title = title_p post,
          description = map_option (take 300) (selftext post),
          imageUrl =
            (if isImage
             then (if is_image_url (url post) then Some (url post)
                   else (case preview_images post of
                           [] \<Rightarrow> None
                         | u # _ \<Rightarrow> map_option replace_amp u))
             else None),
          videoUrl = (if is_video post then Some (url post) else None),
          sourceUrl = ''https://www.reddit.com'' @ permalink post,
          source = Reddit,
          sourceName = sub,
          author = Some (author_p post),
          score = Some (score_p post),
          engagementCount = Some (num_comments post),
          createdAt = Some (created_utc post * 1000),
          tags = [sub, ''reddit''],
          contentType =
            (if is_video post then Video
             else if isImage then Image
             else if url post \<noteq> ''https://www.reddit.com'' @ permalink post then Link
             else Text),
          quality = calculateRedditQuality now post\<rparr>)"

definition parseRedditContent :: "int \<Rightarrow> RedditPost list \<Rightarrow> string \<Rightarrow> DiscoveredContent list" where
  "parseRedditContent now posts sub = map (reddit_item now sub) (filter reddit_keep posts)"

subsection \<open>The aggregate run\<close>

text \<open>
  \<^verbatim>\<open>discoverFromReddit\<close> and \<^verbatim>\<open>discoverFromNews\<close> talk to the cache and the network; what
  becomes of their promises for a given limit is the environment of the run: a promise is
  fulfilled with the items, is rejected, or never settles (nothing in the source bounds
  the time a \<^verbatim>\<open>fetch\<close> may take). What \<^verbatim>\<open>discoverFromTwitter\<close> does is in the source: it
  resolves to the empty array.
\<close>

datatype 'a settled = Fulfilled 'a | Rejected string

datatype 'a promise = Settles "'a settled" | Pending

datatype discovery_source = Src_reddit | Src_twitter | Src_news

record sources_env =
  discoverFromReddit :: "int \<Rightarrow> DiscoveredContent list promise"
  discoverFromNews :: "int \<Rightarrow> DiscoveredContent list promise"

definition discoverFromTwitter :: "int \<Rightarrow> DiscoveredContent list promise" where
  "discoverFromTwitter limit = Settles (Fulfilled [])"

text \<open>
  \<^verbatim>\<open>await Promise.allSettled(promises)\<close> yields the results once every promise has
  settled; with a promise that never settles it never yields, which is \<open>None\<close>.
\<close>

fun allSettled :: "'a promise list \<Rightarrow> 'a settled list option" where
  "allSettled [] = Some []"
| "allSettled (Pending # ps) = None"
| "allSettled (Settles r # ps) = map_option ((#) r) (allSettled ps)"

text \<open>\<^verbatim>\<open>xs.slice(0, e)\<close>: a negative end counts from the end of the array.\<close>

definition slice0 :: "'a list \<Rightarrow> int \<Rightarrow> 'a list" where
  "slice0 xs e = (if e < 0 then take (nat (int (length xs) + e)) xs else take (nat e) xs)"

text \<open>
  What the JavaScript engine contributes to the sort. The comparator computes in double
  precision: every operation yields the exact result rounded, and \<open>fl\<close> is that rounding.
  When the comparator is not consistent, the order \<^verbatim>\<open>Array.prototype.sort\<close> produces is
  left to the engine; \<open>sort_inconsistent\<close> is its choice.
\<close>

record engine =
  fl :: "real \<Rightarrow> real"
  sort_inconsistent :: "DiscoveredContent list \<Rightarrow> DiscoveredContent list"

text \<open>
  What is known of the two: rounding \<open>x\<close> to the nearest double changes it by at most
  \<open>\<bar>x\<bar> / 2 ^ 53\<close> (by at most \<open>1 / 2 ^ 1075\<close> where the result is subnormal), as long as
  nothing overflows; and a sort permutes its array.
\<close>

definition double_rounding :: "(real \<Rightarrow> real) \<Rightarrow> bool" where
  "double_rounding f = (\<forall>x. \<bar>f x - x\<bar> \<le> \<bar>x\<bar> / 2 ^ 53 + 1 / 2 ^ 1075)"

definition permuting :: "('a list \<Rightarrow> 'a list) \<Rightarrow> bool" where
  "permuting g = (\<forall>xs. mset (g xs) = mset xs)"

text \<open>An engine that computes exactly and leaves an array it need not order as it is.\<close>

definition exact_engine :: engine where
  "exact_engine = \<lparr>fl = (\<lambda>x. x), sort_inconsistent = (\<lambda>xs. xs)\<rparr>"

text \<open>
  The score the comparator of the sort computes for an item,
  \<^verbatim>\<open>a.quality * 0.7 + (Date.now() - a.createdAt.getTime()) / (24 * 60 * 60 * 1000) * 0.3\<close>:
  the literals and every operation are rounded (the product of the integer literals is
  exact), and the score of an item with an Invalid Date is \<^verbatim>\<open>NaN\<close>, which is \<open>None\<close>.
\<close>

definition sort_score :: "engine \<Rightarrow> int \<Rightarrow> DiscoveredContent \<Rightarrow> real option" where
  "sort_score eng now a =
     (case createdAt a of
        None \<Rightarrow> None
      | Some t \<Rightarrow>
          Some (fl eng (fl eng (quality a * fl eng 0.7) +
                        fl eng (fl eng (fl eng (of_int (now - t)) / (24 * 60 * 60 * 1000))
                                  * fl eng 0.3))))"

text \<open>
  \<^verbatim>\<open>allContent.sort((a, b) => scoreB - scoreA)\<close>. The difference of two doubles has the
  sign of their exact difference. When every score is a number, the comparator is
  consistent and the stable \<^verbatim>\<open>Array.prototype.sort\<close> orders by descending score, which is
  the stable sort by ascending negated score. A \<^verbatim>\<open>NaN\<close> difference counts as 0, so that an
  item without a score compares equal to all others: the comparator need not be consistent
  then, and the order is the engine's.
\<close>

definition array_sort :: "engine \<Rightarrow> int \<Rightarrow> DiscoveredContent list \<Rightarrow> DiscoveredContent list" where
  "array_sort eng now xs =
     (if list_all (\<lambda>a. sort_score eng now a \<noteq> None) xs
      then sort_key (\<lambda>a. case sort_score eng now a of Some s \<Rightarrow> - s | None \<Rightarrow> 0) xs
      else sort_inconsistent eng xs)"

text \<open>The loop over the settled results: fulfilled values are appended, rejections logged.\<close>

fun collect :: "DiscoveredContent list settled list \<Rightarrow> DiscoveredContent list" where
  "collect [] = []"
| "collect (Fulfilled v # rs) = v @ collect rs"
| "collect (Rejected e # rs) = collect rs"

definition promises :: "sources_env \<Rightarrow> int \<Rightarrow> discovery_source list
     \<Rightarrow> DiscoveredContent list promise list" where
  "promises env maxItems sources =
     (let limit = ceil_div maxItems (int (length sources))
      in (if Src_reddit \<in> set sources then [discoverFromReddit env limit] else []) @
         (if Src_twitter \<in> set sources then [discoverFromTwitter limit] else []) @
         (if Src_news \<in> set sources then [discoverFromNews env limit] else []))"

text \<open>
  \<^verbatim>\<open>discoverContent\<close>: \<open>Some\<close> of the array it returns, \<open>None\<close> when it never returns
  because the \<^verbatim>\<open>await\<close> never does.
\<close>

definition discoverContent ::
  "engine \<Rightarrow> int \<Rightarrow> sources_env \<Rightarrow> int \<Rightarrow> discovery_source list
     \<Rightarrow> DiscoveredContent list option" where
  "discoverContent eng now env maxItems sources =
     (case allSettled (promises env maxItems sources) of
        None \<Rightarrow> None
      | Some results \<Rightarrow>
          (let allContent = collect results;
               sortedContent = slice0 (array_sort eng now allContent) maxItems
           in Some sortedContent))"



definition spec_ranking_key :: "int \<Rightarrow> DiscoveredContent \<Rightarrow> real option" where
  "spec_ranking_key now a =
     map_option
       (\<lambda>t. let ageDays = of_int (now - t) / (24 * 60 * 60 * 1000)
            in 0.7 * quality a + 0.3 * (1 - min ageDays 1))
       (createdAt a)"

section \<open>Concrete data\<close>

text \<open>A queue with one posted item, and a database holding one content row.\<close>

definition posted_item :: SchedulingQueueItem where
  "posted_item =
     \<lparr>id_q = 1, content_id = ''c1'', scheduled_time = ''2025-01-01T08:00:00.000Z'',
      fb_post_id = Some ''fb_1'', status = Q_posted, retry_count = 0, error_message = None,
      created_at = ''2025-01-01T00:00:00.000Z'', updated_at = ''2025-01-01T08:00:01.000Z''\<rparr>"

definition ready_content :: ContentRecord where
  "ready_content =
     \<lparr>type_c = K_image, source_c = None, source_url = None, prompt = None,
      generated_content_url = None, caption = None, hashtags = None, status_c = C_approved,
      ai_provider = None, generation_metadata = None,
      created_at_c = ''2025-01-01T00:00:00.000Z'', updated_at_c = ''2025-01-01T00:00:00.000Z'',
      scheduled_at = None, posted_at = None\<rparr>"

definition queued_item :: SchedulingQueueItem where
  "queued_item =
     \<lparr>id_q = 2, content_id = ''c2'', scheduled_time = ''2025-01-03T08:00:00.000Z'',
      fb_post_id = None, status = Q_queued, retry_count = 0, error_message = None,
      created_at = ''2025-01-01T00:00:00.000Z'', updated_at = ''2025-01-01T00:00:00.000Z''\<rparr>"

definition db_posted :: db where
  "db_posted =
     \<lparr>content = [''c1'' \<mapsto> ready_content\<lparr>status_c := C_posted\<rparr>],
      scheduling_queue = [posted_item, queued_item], seq = 2, foreign_keys = True,
      current_timestamp = ''2025-01-02 00:00:00''\<rparr>"

definition db_one_content :: db where
  "db_one_content =
     \<lparr>content = [''c1'' \<mapsto> ready_content], scheduling_queue = [], seq = 0, foreign_keys = True,
      current_timestamp = ''2025-01-02 08:00:00''\<rparr>"

text \<open>
  Two items of equal quality, one created at time 0 and one a day later, and an article
  that two news queries both return.
\<close>

definition item_at :: "string \<Rightarrow> int \<Rightarrow> DiscoveredContent" where
  "item_at i t =
     \<lparr>id_d = i, title = ''A cat'', description = None, imageUrl = Some ''https://i.redd.it/a.jpg'',
      videoUrl = None, sourceUrl = ''https://www.reddit.com/r/cats/'' @ i, source = Reddit,
      sourceName = ''cats'', author = Some ''someone'', score = Some 500,
      engagementCount = Some 20, createdAt = Some t, tags = [''cats'', ''reddit''],
      contentType = Image, quality = 0.5\<rparr>"

definition old_item :: DiscoveredContent where
  "old_item = item_at ''reddit_old'' 0"

definition new_item :: DiscoveredContent where
  "new_item = item_at ''reddit_new'' 86400000"

definition news_item :: DiscoveredContent where
  "news_item =
     \<lparr>id_d = ''news_1x2y'', title = ''Cat saves the day'', description = Some ''A cat story'',
      imageUrl = Some ''https://example.org/cat.png'', videoUrl = None,
      sourceUrl = ''https://example.org/cat-story'', source = News, sourceName = ''BBC News'',
      author = None, score = None, engagementCount = None, createdAt = Some 0,
      tags = [''news'', ''cat''], contentType = Link, quality = 0.9\<rparr>"

definition env_two_ages :: sources_env where
  "env_two_ages =
     \<lparr>discoverFromReddit = (\<lambda>limit. Settles (Fulfilled [new_item, old_item])),
      discoverFromNews = (\<lambda>limit. Settles (Fulfilled []))\<rparr>"

definition env_repeated_article :: sources_env where
  "env_repeated_article =
     \<lparr>discoverFromReddit = (\<lambda>limit. Settles (Fulfilled [])),
      discoverFromNews = (\<lambda>limit. Settles (Fulfilled [news_item, news_item]))\<rparr>"

definition env_reddit_down :: sources_env where
  "env_reddit_down =
     \<lparr>discoverFromReddit = (\<lambda>limit. Settles (Rejected ''Reddit API error'')),
      discoverFromNews = (\<lambda>limit. Settles (Fulfilled [news_item]))\<rparr>"

definition env_reddit_hangs :: sources_env where
  "env_reddit_hangs =
     \<lparr>discoverFromReddit = (\<lambda>limit. Pending),
      discoverFromNews = (\<lambda>limit. Settles (Fulfilled [news_item]))\<rparr>"

text \<open>A video post with a negative score, and one with a positive score.\<close>

definition post_scored :: "int \<Rightarrow> RedditPost" where
  "post_scored n =
     \<lparr>id_p = ''abc'', title_p = ''A cat'', selftext = None, url = ''https://v.redd.it/abc'',
      thumbnail = None, preview_images = [], author_p = ''someone'', score_p = n,
      num_comments = 0, created_utc = 0, subreddit = ''cats'', permalink = ''/r/cats/abc'',
      is_video = True, over_18 = False\<rparr>"

definition article_plain :: NewsArticle where
  "article_plain =
     \<lparr>title_n = ''Cat saves the day'', description_n = None, url_n = ''https://example.org/cat'',
      urlToImage = None, publishedAt = None, source_id = None, source_name = ''Example'',
      content_n = None\<rparr>"

section \<open>The rate limiter: properties\<close>

text \<open>
  A check keeps the count of its key within every bound that is non-negative and at least
  its limit; requests for other keys and resets do not raise the count.
\<close>

lemma check_count_within:
  "0 \<le> b \<Longrightarrow> m \<le> b \<Longrightarrow> count_within s k b
   \<Longrightarrow> count_within (snd (checkRateLimit s k m w now)) k b"
  by (auto simp: checkRateLimit_def count_within_def Let_def load_window_def stored_window_def
      expire_window_def split: option.splits)

lemma check_other_key:
  "key \<noteq> k \<Longrightarrow> count_within (snd (checkRateLimit s key m' w now)) k b = count_within s k b"
  by (simp add: checkRateLimit_def count_within_def Let_def)

lemma reset_count_within:
  "count_within s k b \<Longrightarrow> count_within (snd (handleReset s key)) k b"
  by (simp add: handleReset_def count_within_def)

lemma snd_fetch_check:
  "snd (fetch s (CheckReq key m w) now) = snd (checkRateLimit s key m w now)"
  by (simp split: prod.splits)

lemma snd_fetch_reset: "snd (fetch s (ResetReq key) now) = snd (handleReset s key)"
  by (simp split: prod.splits)

lemma fetch_count_within:
  assumes "uses_limit k m (req, now)" and "count_within s k (max 0 m)"
  shows "count_within (snd (fetch s req now)) k (max 0 m)"
proof (cases req)
  case (CheckReq key m' w)
  show ?thesis
  proof (cases "key = k")
    case True
    with assms CheckReq have "m' = m" by simp
    with assms True CheckReq check_count_within [of "max 0 m" m s k w now] show ?thesis
      by (simp add: snd_fetch_check del: fetch.simps)
  next
    case False
    with assms CheckReq check_other_key [of key k s m' w now "max 0 m"] show ?thesis
      by (simp add: snd_fetch_check del: fetch.simps)
  qed
next
  case (ResetReq key)
  with assms reset_count_within [of s k "max 0 m" key] show ?thesis
    by (simp add: snd_fetch_reset del: fetch.simps)
next
  case (OtherReq a)
  with assms show ?thesis by simp
qed

lemma run_count_within:
  "list_all (uses_limit k m) ops \<Longrightarrow> count_within s k (max 0 m)
   \<Longrightarrow> count_within (run s ops) k (max 0 m)"
proof (induction ops arbitrary: s)
  case Nil
  then show ?case by simp
next
  case (Cons a ops)
  obtain req now where a: "a = (req, now)" by (cases a)
  with Cons show ?case
    using fetch_count_within [of k m req now s] by simp
qed

lemma denied_no_increment:
  "\<not> allowed (fst (checkRateLimit s k m w now)) \<Longrightarrow>
     requests (snd (checkRateLimit s k m w now)) k = Some (expire_window (load_window s k w now) w now)
     \<and> storage (snd (checkRateLimit s k m w now)) = storage s"
  by (auto simp: checkRateLimit_def Let_def split: if_splits)

text \<open>
  C1, as stated, fails for a negative limit: the first check for a key with
  \<^verbatim>\<open>maxRequests = -1\<close> is denied and leaves the count 0 in the map, which exceeds the limit.
\<close>

theorem C1_counterexample:
  "\<not> count_within (run new_RateLimiter [(CheckReq ''k'' (- 1) 1000, 0)]) ''k'' (- 1)"
  by (simp add: checkRateLimit_def count_within_def Let_def load_window_def stored_window_def
      expire_window_def new_RateLimiter_def)

text \<open>
  C1 (amended): for a limiter whose count for key \<open>k\<close> is at most \<open>max 0 m\<close> (a new limiter,
  or one restarted on the storage it wrote), after every sequence of requests in which
  the checks on \<open>k\<close> use the limit \<open>m\<close>, the count held for \<open>k\<close> (in the map and in storage)
  is at most \<open>max 0 m\<close>: it never exceeds a limit \<open>m \<ge> 0\<close>, and stays at most 0 under a
  negative one. And a check that returns \<^verbatim>\<open>allowed = false\<close> does not increment: it leaves
  under \<open>k\<close> the window it evaluated (the loaded one, or the fresh one with count 0 if that
  had expired) and does not write to storage.
\<close>

theorem C1_count_bounded:
  assumes "list_all (uses_limit k m) ops" and "count_within s0 k (max 0 m)"
  shows "count_within (run s0 ops) k (max 0 m) \<and>
         (\<not> allowed (fst (checkRateLimit s k m w now)) \<longrightarrow>
            requests (snd (checkRateLimit s k m w now)) k
              = Some (expire_window (load_window s k w now) w now) \<and>
            storage (snd (checkRateLimit s k m w now)) = storage s)"
proof -
  from assms have "count_within (run s0 ops) k (max 0 m)"
    by (rule run_count_within)
  with denied_no_increment [of s k m w now] show ?thesis by blast
qed

text \<open>
  Witness for C1: two checks with limit 1 on a new limiter within one window; the second
  one is denied and the count stays 1.
\<close>

theorem C1_witness:
  "list_all (uses_limit ''facebook:feed'' 1)
     [(CheckReq ''facebook:feed'' 1 60000, 0), (CheckReq ''facebook:feed'' 1 60000, 10)] \<and>
   count_within new_RateLimiter ''facebook:feed'' 1 \<and>
   count_within
     (run new_RateLimiter
        [(CheckReq ''facebook:feed'' 1 60000, 0), (CheckReq ''facebook:feed'' 1 60000, 10)])
     ''facebook:feed'' 1 \<and>
   \<not> allowed (fst (checkRateLimit
        (run new_RateLimiter [(CheckReq ''facebook:feed'' 1 60000, 0)]) ''facebook:feed'' 1 60000 10)) \<and>
   requests (snd (checkRateLimit
        (run new_RateLimiter [(CheckReq ''facebook:feed'' 1 60000, 0)]) ''facebook:feed'' 1 60000 10))
     ''facebook:feed'' = Some \<lparr>count = 1, resetTime = 60000\<rparr>"
  using C1_count_bounded [of "''facebook:feed''" 1
      "[(CheckReq ''facebook:feed'' 1 60000, 0), (CheckReq ''facebook:feed'' 1 60000, 10)]"
      new_RateLimiter
      "run new_RateLimiter [(CheckReq ''facebook:feed'' 1 60000, 0)]" 60000 10]
  by (simp add: checkRateLimit_def Let_def load_window_def stored_window_def
      expire_window_def new_RateLimiter_def count_within_def)

text \<open>
  C2: when a check for key \<open>k\<close> arrives at \<open>now \<ge> resetTime\<close> of the window held for \<open>k\<close>,
  the call opens a fresh window with \<open>resetTime = now + windowMs\<close> and count 0 before it
  evaluates the limit; it is allowed exactly if \<open>0 < maxRequests\<close>, whatever the old count
  was, and when allowed it leaves count 1 (in the map and in storage) and reports
  \<open>remaining = maxRequests - 1\<close>.
\<close>

theorem C2_window_reset:
  assumes "stored_window s k = Some c" and "resetTime c \<le> now"
  shows "requests (snd (checkRateLimit s k m w now)) k
           = Some \<lparr>count = (if 0 < m then 1 else 0), resetTime = now + w\<rparr> \<and>
         allowed (fst (checkRateLimit s k m w now)) = (0 < m) \<and>
         resetTime_r (fst (checkRateLimit s k m w now)) = now + w \<and>
         (allowed (fst (checkRateLimit s k m w now)) \<longrightarrow>
            remaining (fst (checkRateLimit s k m w now)) = m - 1 \<and>
            storage (snd (checkRateLimit s k m w now)) k = Some \<lparr>count = 1, resetTime = now + w\<rparr>)"
  using assms
  by (simp add: checkRateLimit_def Let_def load_window_def expire_window_def)

text \<open>
  Witness for C2: limit 1 is used up at time 0; the check at time 60000, the reset time
  of that window, is allowed again and leaves count 1 in a window that ends at 120000.
\<close>

theorem C2_witness:
  "stored_window (run new_RateLimiter [(CheckReq ''facebook:feed'' 1 60000, 0)]) ''facebook:feed''
     = Some \<lparr>count = 1, resetTime = 60000\<rparr> \<and>
   resetTime \<lparr>count = 1, resetTime = 60000\<rparr> \<le> 60000 \<and>
   fst (checkRateLimit (run new_RateLimiter [(CheckReq ''facebook:feed'' 1 60000, 0)])
          ''facebook:feed'' 1 60000 60000)
     = \<lparr>allowed = True, remaining = 0, resetTime_r = 120000, retryAfter = None\<rparr> \<and>
   requests (snd (checkRateLimit (run new_RateLimiter [(CheckReq ''facebook:feed'' 1 60000, 0)])
          ''facebook:feed'' 1 60000 60000)) ''facebook:feed''
     = Some \<lparr>count = 1, resetTime = 120000\<rparr>"
  using C2_window_reset [of "run new_RateLimiter [(CheckReq ''facebook:feed'' 1 60000, 0)]"
      "''facebook:feed''" "\<lparr>count = 1, resetTime = 60000\<rparr>" 60000 1 60000]
  by (simp add: checkRateLimit_def Let_def load_window_def stored_window_def
      expire_window_def new_RateLimiter_def)

text \<open>
  C3: when the call to the durable object throws, \<^verbatim>\<open>RateLimitService.checkRateLimit\<close>
  returns \<^verbatim>\<open>allowed = true\<close> with \<open>remaining = maxRequests\<close> (and
  \<open>resetTime = now + windowMs\<close>, no \<^verbatim>\<open>retryAfter\<close>), for every key and configuration,
  instead of propagating the error.
\<close>

theorem C3_fail_open:
  "service_checkRateLimit (Unavailable err) key config now now'
     = (\<lparr>allowed = True, remaining = maxRequests config,
         resetTime_r = now' + windowMs config, retryAfter = None\<rparr>, Unavailable err)"
  by (simp add: service_checkRateLimit_def)

text \<open>
  Witness for C3: the limit of 100 requests per minute for an IP key, with the durable
  object unreachable.
\<close>

theorem C3_witness:
  "service_checkRateLimit (Unavailable ''Durable Object is overloaded'') ''ip:203.0.113.7''
       \<lparr>maxRequests = 100, windowMs = 60000\<rparr> 5 7
     = (\<lparr>allowed = True, remaining = 100, resetTime_r = 60007, retryAfter = None\<rparr>,
        Unavailable ''Durable Object is overloaded'')"
  using C3_fail_open [of "''Durable Object is overloaded''" "''ip:203.0.113.7''"
      "\<lparr>maxRequests = 100, windowMs = 60000\<rparr>" 5 7]
  by simp

text \<open>
  C10, as stated, fails for \<open>m = 0\<close>: after a reset the check with \<^verbatim>\<open>maxRequests = 0\<close> is
  denied.
\<close>

theorem C10_counterexample:
  "fst (fetch (snd (fetch new_RateLimiter (ResetReq ''k'') 5)) (CheckReq ''k'' 0 1000) 5)
     = CheckResp \<lparr>allowed = False, remaining = 0, resetTime_r = 1005, retryAfter = Some 1\<rparr>"
  by (simp add: checkRateLimit_def Let_def load_window_def stored_window_def
      expire_window_def new_RateLimiter_def handleReset_def ceil_div_def)

text \<open>
  C10 (amended): for every key \<open>k\<close>, every \<open>m \<ge> 1\<close> and every \<open>w\<close>, in every state of the
  limiter, a reset of \<open>k\<close> followed by \<^verbatim>\<open>check(k, m, w)\<close> answers \<^verbatim>\<open>allowed = true\<close> with
  \<open>remaining = m - 1\<close>, in a fresh window ending at \<open>now + w\<close>.
\<close>

theorem C10_reset_then_check:
  assumes "1 \<le> m"
  shows "fst (fetch (snd (fetch s (ResetReq k) t)) (CheckReq k m w) now)
           = CheckResp \<lparr>allowed = True, remaining = m - 1, resetTime_r = now + w, retryAfter = None\<rparr>"
  using assms
  by (simp add: checkRateLimit_def Let_def load_window_def stored_window_def
      expire_window_def handleReset_def)

text \<open>Witness for C10: the limit 1 is used up, the key is reset, the next check is allowed.\<close>

theorem C10_witness:
  "(1::int) \<le> 1 \<and>
   fst (fetch (snd (fetch (run new_RateLimiter [(CheckReq ''facebook:feed'' 1 60000, 0)])
                     (ResetReq ''facebook:feed'') 5)) (CheckReq ''facebook:feed'' 1 60000) 5)
     = CheckResp \<lparr>allowed = True, remaining = 0, resetTime_r = 60005, retryAfter = None\<rparr>"
  using C10_reset_then_check [of 1 "run new_RateLimiter [(CheckReq ''facebook:feed'' 1 60000, 0)]"
      "''facebook:feed''" 5 60000 5]
  by simp

section \<open>The scheduling queue: properties\<close>

text \<open>
  C4, as stated, fails: \<^verbatim>\<open>updateSchedulingQueueStatus\<close> checks no transition. An item
  that is posted, a terminal state, is set back to queued, which is no edge of the
  lifecycle graph.
\<close>

theorem C4_counterexample:
  "\<not> spec_lifecycle_edge Q_posted Q_queued \<and>
   map status (scheduling_queue db_posted) = [Q_posted, Q_queued] \<and>
   map status (scheduling_queue
     (updateSchedulingQueueStatus db_posted 1 Q_queued None None ''2025-01-02T00:00:00.000Z''))
     = [Q_queued, Q_queued]"
  by (simp add: spec_lifecycle_edge_def db_posted_def posted_item_def queued_item_def
      updateSchedulingQueueStatus_def update_row_def update_scheduling_queue_timestamp_def)

text \<open>
  The row the \<^verbatim>\<open>UPDATE\<close> and its trigger leave in place of a row they update.
\<close>

lemma update_row_fields:
  "update_row d st fb err now r
     = r\<lparr>status := st,
         fb_post_id := (if truthy fb then fb else fb_post_id r),
         error_message := (if truthy err then err else error_message r),
         retry_count := (if truthy err then retry_count r + 1 else retry_count r),
         updated_at := (if now = updated_at r then current_timestamp d else now)\<rparr>"
  by (simp add: update_row_def update_scheduling_queue_timestamp_def Let_def)

text \<open>
  C4 (amended): \<^verbatim>\<open>updateSchedulingQueueStatus\<close> applies every requested status change,
  whatever the current status, and rejects none: afterwards the item with the given id
  has the requested status (and the optional columns and the timestamp as the statement
  sets them), every other item is as it was, in the same place, and so are the content
  table and the rest of the database.
\<close>

theorem C4_update_unconditional:
  "updateSchedulingQueueStatus d i st fb err now
     = d\<lparr>scheduling_queue :=
           map (\<lambda>r. if id_q r = i
                     then r\<lparr>status := st,
                            fb_post_id := (if truthy fb then fb else fb_post_id r),
                            error_message := (if truthy err then err else error_message r),
                            retry_count := (if truthy err then retry_count r + 1 else retry_count r),
                            updated_at := (if now = updated_at r then current_timestamp d else now)\<rparr>
                     else r)
             (scheduling_queue d)\<rparr> \<and>
   map status (scheduling_queue (updateSchedulingQueueStatus d i st fb err now))
     = map (\<lambda>r. if id_q r = i then st else status r) (scheduling_queue d) \<and>
   map id_q (scheduling_queue (updateSchedulingQueueStatus d i st fb err now))
     = map id_q (scheduling_queue d) \<and>
   filter (\<lambda>r. id_q r \<noteq> i) (scheduling_queue (updateSchedulingQueueStatus d i st fb err now))
     = filter (\<lambda>r. id_q r \<noteq> i) (scheduling_queue d) \<and>
   content (updateSchedulingQueueStatus d i st fb err now) = content d"
proof -
  have "filter (\<lambda>r. id_q r \<noteq> i)
          (map (\<lambda>r. if id_q r = i then update_row d st fb err now r else r) rows)
        = filter (\<lambda>r. id_q r \<noteq> i) rows" for rows
    by (induction rows) (auto simp: update_row_fields)
  then show ?thesis
    by (simp add: updateSchedulingQueueStatus_def update_row_fields cong: if_cong)
qed

text \<open>
  Witness for C4: the posted item of the example queue takes the status cancelled, which
  the lifecycle graph allows from non-terminal states only; the queued item beside it is
  untouched.
\<close>

theorem C4_witness:
  "scheduling_queue
     (updateSchedulingQueueStatus db_posted 1 Q_cancelled None None ''2025-01-02T00:00:00.000Z'')
     = [posted_item\<lparr>status := Q_cancelled, updated_at := ''2025-01-02T00:00:00.000Z''\<rparr>,
        queued_item]"
  using C4_update_unconditional [of db_posted 1 Q_cancelled None None
      "''2025-01-02T00:00:00.000Z''"]
  by (simp add: db_posted_def posted_item_def queued_item_def)

text \<open>
  The id of an inserted row is new, so the read after the insert finds that row.
\<close>

lemma foldr_max_mem: "x \<in> set xs \<Longrightarrow> x \<le> foldr max xs (a::int)"
  by (induction xs) auto

lemma next_id_fresh: "r \<in> set (scheduling_queue d) \<Longrightarrow> id_q r < next_id d"
  using foldr_max_mem [of "id_q r" "map id_q (scheduling_queue d)" "seq d"]
  by (simp add: next_id_def)

lemma find_fresh:
  "\<forall>r \<in> set rows. id_q r \<noteq> i \<Longrightarrow> id_q row = i
   \<Longrightarrow> find (\<lambda>r. id_q r = i) (rows @ [row]) = Some row"
  by (induction rows) auto

lemma queue_updateContentStatus:
  "scheduling_queue (updateContentStatus d i st md now now') = scheduling_queue d"
  by (simp add: updateContentStatus_def Let_def split: option.splits)

lemma content_updateContentStatus:
  "content d i = Some row \<Longrightarrow>
   map_option status_c (content (updateContentStatus d i st md now now') i) = Some st"
  by (simp add: updateContentStatus_def update_content_timestamp_def Let_def
      split: option.splits)

lemma scheduleContent_ok:
  assumes "content d cid = Some row"
  shows "scheduleContent d cid t now now'
     = Inr (\<lparr>id_q = next_id d, content_id = cid, scheduled_time = t,
                    fb_post_id = None, status = Q_queued, retry_count = 0,
                    error_message = None, created_at = now, updated_at = now\<rparr>,
        updateContentStatus
          (d\<lparr>scheduling_queue := scheduling_queue d @ [\<lparr>id_q = next_id d, content_id = cid, scheduled_time = t,
                    fb_post_id = None, status = Q_queued, retry_count = 0,
                    error_message = None, created_at = now, updated_at = now\<rparr>], seq := next_id d\<rparr>)
          cid C_scheduled None now' now')"
proof -
  let ?row = "\<lparr>id_q = next_id d, content_id = cid, scheduled_time = t,
                    fb_post_id = None, status = Q_queued, retry_count = 0,
                    error_message = None, created_at = now, updated_at = now\<rparr>"
  have "\<forall>r \<in> set (scheduling_queue d). id_q r \<noteq> next_id d"
    using next_id_fresh by fastforce
  then have "find (\<lambda>r. id_q r = next_id d) (scheduling_queue d @ [?row]) = Some ?row"
    by (rule find_fresh) simp
  with assms show ?thesis
    by (simp add: scheduleContent_def Let_def getSchedulingQueueItem_def queue_updateContentStatus)
qed

text \<open>
  C5 (amended): for a content id whose content row exists, \<^verbatim>\<open>scheduleContent\<close> succeeds,
  whatever items the queue already holds for that content id: it appends one item with
  status queued for it, returns that item, and sets the status of the content row to
  scheduled; the number of non-terminal items of the content id grows by one (it is not
  kept at most one).
\<close>

theorem C5_schedule_adds_queued_item:
  assumes "content d cid = Some row"
  shows "\<exists>item d'. scheduleContent d cid t now now' = Inr (item, d') \<and>
           status item = Q_queued \<and> content_id item = cid \<and>
           scheduling_queue d' = scheduling_queue d @ [item] \<and>
           map_option status_c (content d' cid) = Some C_scheduled \<and>
           length (active_items d' cid) = length (active_items d cid) + 1"
proof -
  let ?item = "\<lparr>id_q = next_id d, content_id = cid, scheduled_time = t,
                 fb_post_id = None, status = Q_queued, retry_count = 0,
                 error_message = None, created_at = now, updated_at = now\<rparr>"
  let ?d1 = "d\<lparr>scheduling_queue := scheduling_queue d @ [?item], seq := next_id d\<rparr>"
  let ?d2 = "updateContentStatus ?d1 cid C_scheduled None now' now'"
  have run: "scheduleContent d cid t now now' = Inr (?item, ?d2)"
    using assms by (rule scheduleContent_ok)
  have "content ?d1 cid = Some row"
    using assms by simp
  then have st: "map_option status_c (content ?d2 cid) = Some C_scheduled"
    by (rule content_updateContentStatus)
  have q: "scheduling_queue ?d2 = scheduling_queue d @ [?item]"
    by (simp add: queue_updateContentStatus)
  have "length (active_items ?d2 cid) = length (active_items d cid) + 1"
    by (simp add: active_items_def q)
  with run st q show ?thesis by simp
qed

text \<open>
  C5, as stated, fails: scheduling the same content id twice succeeds twice and leaves
  two queued items for it.
\<close>

theorem C5_counterexample:
  "\<not> isl (scheduleContent db_one_content ''c1'' ''2025-01-02T08:00:00.000Z'' ''t1'' ''t1'') \<and>
   \<not> isl (scheduleContent
       (snd (projr (scheduleContent db_one_content ''c1'' ''2025-01-02T08:00:00.000Z'' ''t1'' ''t1'')))
       ''c1'' ''2025-01-03T08:00:00.000Z'' ''t2'' ''t2'') \<and>
   map status (active_items
     (snd (projr (scheduleContent
       (snd (projr (scheduleContent db_one_content ''c1'' ''2025-01-02T08:00:00.000Z'' ''t1'' ''t1'')))
       ''c1'' ''2025-01-03T08:00:00.000Z'' ''t2'' ''t2''))) ''c1'') = [Q_queued, Q_queued]"
  by (simp add: scheduleContent_def Let_def getSchedulingQueueItem_def db_one_content_def
      updateContentStatus_def update_content_timestamp_def next_id_def active_items_def)

text \<open>
  Witness for C5: the first scheduling of the content row of the example database.
\<close>

theorem C5_witness:
  "content db_one_content ''c1'' = Some ready_content \<and>
   (\<exists>item d'. scheduleContent db_one_content ''c1'' ''2025-01-02T08:00:00.000Z'' ''t1'' ''t2'' = Inr (item, d') \<and>
           status item = Q_queued \<and> content_id item = ''c1'' \<and>
           scheduling_queue d' = [item] \<and>
           map_option status_c (content d' ''c1'') = Some C_scheduled \<and>
           length (active_items d' ''c1'') = 1)"
  using C5_schedule_adds_queued_item [of db_one_content "''c1''" ready_content
      "''2025-01-02T08:00:00.000Z''" "''t1''" "''t2''"]
  by (simp add: db_one_content_def active_items_def)

section \<open>Content discovery: properties\<close>







lemma slice0_all: "int (length xs) \<le> e \<Longrightarrow> slice0 xs e = xs"
  by (simp add: slice0_def)

lemma length_slice0: "0 \<le> e \<Longrightarrow> int (length (slice0 xs e)) \<le> e"
  by (simp add: slice0_def)

lemma set_slice0: "set (slice0 xs e) \<subseteq> set xs"
  by (auto simp: slice0_def dest: in_set_takeD)

text \<open>
  The sort permutes, and a run whose promises all settle returns.
\<close>

lemma mset_array_sort:
  "permuting (sort_inconsistent eng) \<Longrightarrow> mset (array_sort eng now xs) = mset xs"
  by (simp add: array_sort_def permuting_def)

lemma discoverContent_Some:
  "allSettled (promises env maxItems sources) = Some results \<Longrightarrow>
   discoverContent eng now env maxItems sources
     = Some (slice0 (array_sort eng now (collect results)) maxItems)"
  by (simp add: discoverContent_def Let_def)

lemma permuting_exact: "permuting (sort_inconsistent exact_engine)"
  by (simp add: permuting_def exact_engine_def)

lemma double_rounding_exact: "double_rounding (fl exact_engine)"
  by (simp add: double_rounding_def exact_engine_def)


text \<open>
  The two copies are returned whatever the engine, since equal items have equal scores.
\<close>

lemma repeated_article_every_engine:
  "discoverContent eng 0 env_repeated_article 50 [Src_reddit, Src_twitter, Src_news]
     = Some [news_item, news_item]"
  by (simp add: discoverContent_def promises_def env_repeated_article_def
      discoverFromTwitter_def slice0_def array_sort_def sort_score_def news_item_def)



text \<open>
  What the sort and the slice of \<^verbatim>\<open>discoverContent\<close> do guarantee: at most \<open>maxItems\<close>
  items for \<open>maxItems \<ge> 0\<close>, and, when every item has a date, descending order of the score
  the comparator computes.
\<close>

lemma discoverContent_length:
  "0 \<le> maxItems \<Longrightarrow> discoverContent eng now env maxItems sources = Some out
   \<Longrightarrow> int (length out) \<le> maxItems"
  by (auto simp: discoverContent_def Let_def length_slice0 split: option.splits)

lemma discoverContent_sorted_by_sort_score:
  assumes "allSettled (promises env maxItems sources) = Some results"
    and "list_all (\<lambda>a. sort_score eng now a \<noteq> None) (collect results)"
  shows "\<exists>out. discoverContent eng now env maxItems sources = Some out \<and>
           sorted (map (\<lambda>a. case sort_score eng now a of Some s \<Rightarrow> - s | None \<Rightarrow> 0) out)"
proof -
  let ?key = "\<lambda>a. case sort_score eng now a of Some s \<Rightarrow> - s | None \<Rightarrow> 0"
  have "sorted (map ?key (take n (sort_key ?key (collect results))))" for n
    by (simp add: take_map [symmetric] sorted_wrt_take del: take_map)
  then have "sorted (map ?key (slice0 (array_sort eng now (collect results)) maxItems))"
    using assms(2) by (simp add: array_sort_def slice0_def)
  with discoverContent_Some [OF assms(1), of eng now] show ?thesis by simp
qed

text \<open>
  The score of an item of quality \<open>1/2\<close> without age is at most \<open>2/5\<close>, and that of one a
  day old is at least \<open>3/5\<close>, however the doubles round.
\<close>

lemma rounding_error:
  assumes "double_rounding f" and "\<bar>x\<bar> \<le> 100000000"
  shows "\<bar>f x - x\<bar> \<le> 1 / 1000000"
proof -
  have "\<bar>f x - x\<bar> \<le> \<bar>x\<bar> / 2 ^ 53 + 1 / 2 ^ 1075"
    using assms(1) by (simp add: double_rounding_def)
  moreover have "(1::real) / 2 ^ 1075 \<le> 1 / 2 ^ 53"
    by (simp add: field_simps)
  moreover have "\<bar>x\<bar> / 2 ^ 53 \<le> 100000000 / (2 ^ 53 :: real)"
    using assms(2) by (simp add: divide_right_mono)
  moreover have "100000000 / (2 ^ 53 :: real) + 1 / 2 ^ 53 \<le> 1 / 1000000"
    by simp
  ultimately show ?thesis by linarith
qed

lemma product_bounds:
  fixes u v :: real
  assumes "lu \<le> u" "u \<le> hu" "lv \<le> v" "v \<le> hv" "0 \<le> lu" "0 \<le> lv"
  shows "lu * lv \<le> u * v \<and> u * v \<le> hu * hv"
  using assms by (simp add: mult_mono)

lemma small_product:
  fixes u v :: real
  assumes "\<bar>u\<bar> \<le> d" "\<bar>v\<bar> \<le> 1"
  shows "\<bar>u * v\<bar> \<le> d"
proof -
  have "\<bar>u * v\<bar> = \<bar>u\<bar> * \<bar>v\<bar>" by (simp add: abs_mult)
  also have "\<dots> \<le> d * 1"
    using assms by (intro mult_mono) auto
  finally show ?thesis by simp
qed

lemma score_new:
  assumes r: "double_rounding f"
  shows "f (f (1 / 2 * f (7 / 10)) + f (f (f 0 / 86400000) * f (3 / 10))) \<le> 2 / 5"
proof -
  have c7: "\<bar>f (7 / 10) - 7 / 10\<bar> \<le> 1 / 1000000"
    using r by (rule rounding_error) simp
  have c3: "\<bar>f (3 / 10) - 3 / 10\<bar> \<le> 1 / 1000000"
    using r by (rule rounding_error) simp
  have p: "\<bar>f (1 / 2 * f (7 / 10)) - 1 / 2 * f (7 / 10)\<bar> \<le> 1 / 1000000"
    using r by (rule rounding_error) (use c7 in linarith)
  have z: "\<bar>f 0 - 0\<bar> \<le> 1 / 1000000"
    using r by (rule rounding_error) simp
  have a: "\<bar>f (f 0 / 86400000) - f 0 / 86400000\<bar> \<le> 1 / 1000000"
    using r by (rule rounding_error) (use z in linarith)
  have a': "\<bar>f (f 0 / 86400000)\<bar> \<le> 1 / 100000"
    using a z by linarith
  have "\<bar>f (3 / 10)\<bar> \<le> 1" using c3 by linarith
  with a' have m: "\<bar>f (f 0 / 86400000) * f (3 / 10)\<bar> \<le> 1 / 100000"
    by (rule small_product)
  have t: "\<bar>f (f (f 0 / 86400000) * f (3 / 10)) - f (f 0 / 86400000) * f (3 / 10)\<bar> \<le> 1 / 1000000"
    using r by (rule rounding_error) (use m in linarith)
  have s: "\<bar>f (f (1 / 2 * f (7 / 10)) + f (f (f 0 / 86400000) * f (3 / 10)))
            - (f (1 / 2 * f (7 / 10)) + f (f (f 0 / 86400000) * f (3 / 10)))\<bar> \<le> 1 / 1000000"
    using r by (rule rounding_error) (use c7 p m t in linarith)
  from c7 p m t s show ?thesis by linarith
qed

lemma score_old:
  assumes r: "double_rounding f"
  shows "3 / 5 \<le> f (f (1 / 2 * f (7 / 10)) + f (f (f 86400000 / 86400000) * f (3 / 10)))"
proof -
  have c7: "\<bar>f (7 / 10) - 7 / 10\<bar> \<le> 1 / 1000000"
    using r by (rule rounding_error) simp
  have c3: "\<bar>f (3 / 10) - 3 / 10\<bar> \<le> 1 / 1000000"
    using r by (rule rounding_error) simp
  have p: "\<bar>f (1 / 2 * f (7 / 10)) - 1 / 2 * f (7 / 10)\<bar> \<le> 1 / 1000000"
    using r by (rule rounding_error) (use c7 in linarith)
  have z: "\<bar>f 86400000 - 86400000\<bar> \<le> 1 / 1000000"
    using r by (rule rounding_error) simp
  have a: "\<bar>f (f 86400000 / 86400000) - f 86400000 / 86400000\<bar> \<le> 1 / 1000000"
    using r by (rule rounding_error) (use z in linarith)
  have a1: "99 / 100 \<le> f (f 86400000 / 86400000)" and a2: "f (f 86400000 / 86400000) \<le> 101 / 100"
    using a z by linarith+
  have b1: "29 / 100 \<le> f (3 / 10)" and b2: "f (3 / 10) \<le> 31 / 100"
    using c3 by linarith+
  have m: "99 / 100 * (29 / 100) \<le> f (f 86400000 / 86400000) * f (3 / 10) \<and>
           f (f 86400000 / 86400000) * f (3 / 10) \<le> 101 / 100 * (31 / 100)"
    using a1 a2 b1 b2 by (rule product_bounds) simp_all
  have t: "\<bar>f (f (f 86400000 / 86400000) * f (3 / 10)) - f (f 86400000 / 86400000) * f (3 / 10)\<bar>
      \<le> 1 / 1000000"
    using r by (rule rounding_error) (use m in linarith)
  have s: "\<bar>f (f (1 / 2 * f (7 / 10)) + f (f (f 86400000 / 86400000) * f (3 / 10)))
            - (f (1 / 2 * f (7 / 10)) + f (f (f 86400000 / 86400000) * f (3 / 10)))\<bar> \<le> 1 / 1000000"
    using r by (rule rounding_error) (use c7 p m t in linarith)
  from c7 p m t s show ?thesis by linarith
qed

text \<open>
  C7: the claim says the output is sorted by descending
  \<open>0.7 * quality + 0.3 * (1 - min ageDays 1)\<close>, so that of two items of equal quality the
  more recent one comes first. The comparator adds \<open>0.3 * ageDays\<close> instead: at the input
  below, two items of quality 0.5, the day-old item is returned before the new one,
  although its ranking key, 0.35, is the smaller one (0.65 for the new item). This holds
  for every rounding of the doubles.
\<close>

theorem C7_older_item_first:
  assumes "double_rounding (fl eng)"
  shows "discoverContent eng 86400000 env_two_ages 10 [Src_reddit, Src_twitter, Src_news]
           = Some [old_item, new_item] \<and>
         quality old_item = quality new_item \<and>
         createdAt old_item = Some 0 \<and> createdAt new_item = Some 86400000 \<and>
         spec_ranking_key 86400000 old_item = Some (7 / 20) \<and>
         spec_ranking_key 86400000 new_item = Some (13 / 20)"
proof -
  let ?n = "fl eng (fl eng (1 / 2 * fl eng (7 / 10))
                    + fl eng (fl eng (fl eng 0 / 86400000) * fl eng (3 / 10)))"
  let ?o = "fl eng (fl eng (1 / 2 * fl eng (7 / 10))
                    + fl eng (fl eng (fl eng 86400000 / 86400000) * fl eng (3 / 10)))"
  have n: "sort_score eng 86400000 new_item = Some ?n"
    by (simp add: sort_score_def new_item_def item_at_def)
  have o: "sort_score eng 86400000 old_item = Some ?o"
    by (simp add: sort_score_def old_item_def item_at_def)
  have "?n \<le> 2 / 5" using assms by (rule score_new)
  moreover have "3 / 5 \<le> ?o" using assms by (rule score_old)
  ultimately have lt: "?n < ?o" by linarith
  have "array_sort eng 86400000 [new_item, old_item] = [old_item, new_item]"
    using lt by (simp add: array_sort_def n o)
  then have "discoverContent eng 86400000 env_two_ages 10 [Src_reddit, Src_twitter, Src_news]
           = Some [old_item, new_item]"
    by (simp add: discoverContent_def promises_def env_two_ages_def discoverFromTwitter_def
        slice0_def)
  then show ?thesis
    by (simp add: spec_ranking_key_def old_item_def new_item_def item_at_def)
qed

text \<open>
  Witness for C7: the run under exact arithmetic.
\<close>

theorem C7_witness:
  "double_rounding (fl exact_engine) \<and>
   discoverContent exact_engine 86400000 env_two_ages 10 [Src_reddit, Src_twitter, Src_news]
     = Some [old_item, new_item] \<and>
   spec_ranking_key 86400000 old_item = Some (7 / 20) \<and>
   spec_ranking_key 86400000 new_item = Some (13 / 20)"
  using C7_older_item_first [OF double_rounding_exact] double_rounding_exact
  by simp

text \<open>
  The results of promises that all settle, and what the loop collects from them.
\<close>

lemma allSettled_Settles: "allSettled (map Settles rs) = Some rs"
  by (induction rs) auto

lemma allSettled_Pending: "Pending \<in> set ps \<Longrightarrow> allSettled ps = None"
  by (induction ps rule: allSettled.induct) auto

lemma collect_append: "collect (rs1 @ rs2) = collect rs1 @ collect rs2"
  by (induction rs1 rule: collect.induct) auto

lemma collect_Fulfilled: "collect (map Fulfilled vs) = concat vs"
  by (induction vs) auto

lemma collect_one_rejected:
  "collect (map Fulfilled vs1 @ Rejected e # map Fulfilled vs2) = concat (vs1 @ vs2)"
  by (simp add: collect_append collect_Fulfilled)

text \<open>
  C8, as stated, fails where it speaks of a source that times out: the code sets no
  time bound on a source, and \<^verbatim>\<open>Promise.allSettled\<close> waits for every promise. When the
  promise of Reddit never settles, \<^verbatim>\<open>discoverContent\<close> never returns, although the news
  source has delivered an article.
\<close>

theorem C8_counterexample:
  "discoverFromNews env_reddit_hangs 4 = Settles (Fulfilled [news_item]) \<and>
   promises env_reddit_hangs 10 [Src_reddit, Src_twitter, Src_news]
     = [Pending, Settles (Fulfilled []), Settles (Fulfilled [news_item])] \<and>
   discoverContent exact_engine 0 env_reddit_hangs 10 [Src_reddit, Src_twitter, Src_news] = None"
  by (simp add: discoverContent_def promises_def env_reddit_hangs_def discoverFromTwitter_def
      ceil_div_def)

text \<open>
  C8 (amended): when the promise of one of the requested sources is rejected and those
  of the others are fulfilled, \<^verbatim>\<open>discoverContent\<close> returns; its result is a reordering
  of the items of the other sources, cut to \<open>maxItems\<close>: no item comes from elsewhere, the
  rejected source contributes none, at most \<open>maxItems\<close> items are returned, and when the
  others deliver at most \<open>maxItems\<close> items the result holds every item of theirs as often
  as they delivered it. There is no time
  bound: with a promise that never settles, \<^verbatim>\<open>discoverContent\<close> does not return.
\<close>

theorem C8_partial_failure:
  assumes "promises env maxItems sources
             = map (\<lambda>v. Settles (Fulfilled v)) vs1 @ Settles (Rejected e)
                 # map (\<lambda>v. Settles (Fulfilled v)) vs2"
    and "permuting (sort_inconsistent eng)"
  shows "(\<exists>out ys. discoverContent eng now env maxItems sources = Some out \<and>
            mset ys = mset (concat (vs1 @ vs2)) \<and> out = slice0 ys maxItems \<and>
            (0 \<le> maxItems \<longrightarrow> out = take (nat maxItems) ys) \<and>
            set out \<subseteq> set (concat (vs1 @ vs2)) \<and>
            (int (length (concat (vs1 @ vs2))) \<le> maxItems
               \<longrightarrow> mset out = mset (concat (vs1 @ vs2)))) \<and>
         (Pending \<in> set (promises env' maxItems' sources')
            \<longrightarrow> discoverContent eng now env' maxItems' sources' = None)"
proof -
  let ?results = "map Fulfilled vs1 @ Rejected e # map Fulfilled vs2"
  let ?ys = "array_sort eng now (concat (vs1 @ vs2))"
  have "promises env maxItems sources = map Settles ?results"
    using assms(1) by simp
  then have "allSettled (promises env maxItems sources) = Some ?results"
    by (simp only: allSettled_Settles)
  then have "discoverContent eng now env maxItems sources
      = Some (slice0 (array_sort eng now (collect ?results)) maxItems)"
    by (rule discoverContent_Some)
  then have out: "discoverContent eng now env maxItems sources = Some (slice0 ?ys maxItems)"
    by (simp only: collect_one_rejected)
  have m: "mset ?ys = mset (concat (vs1 @ vs2))"
    using assms(2) by (rule mset_array_sort)
  then have s: "set ?ys = set (concat (vs1 @ vs2))"
    by (rule mset_eq_setD)
  have l: "length ?ys = length (concat (vs1 @ vs2))"
    using m by (rule mset_eq_length)
  have sub: "set (slice0 ?ys maxItems) \<subseteq> set (concat (vs1 @ vs2))"
    using set_slice0 [of ?ys maxItems] s by simp
  have full: "int (length (concat (vs1 @ vs2))) \<le> maxItems
      \<longrightarrow> mset (slice0 ?ys maxItems) = mset (concat (vs1 @ vs2))"
    using m l by (simp add: slice0_all)
  have cut: "0 \<le> maxItems \<longrightarrow> slice0 ?ys maxItems = take (nat maxItems) ?ys"
    by (simp add: slice0_def)
  have "Pending \<in> set (promises env' maxItems' sources')
      \<longrightarrow> discoverContent eng now env' maxItems' sources' = None"
    by (simp add: discoverContent_def allSettled_Pending)
  with out m sub full cut show ?thesis by blast
qed

text \<open>
  Witness for C8: Reddit is rejected, and the article of the news source is returned;
  Reddit never settles, and nothing is returned.
\<close>

theorem C8_witness:
  "promises env_reddit_down 10 [Src_reddit, Src_twitter, Src_news]
     = map (\<lambda>v. Settles (Fulfilled v)) [] @ Settles (Rejected ''Reddit API error'')
         # map (\<lambda>v. Settles (Fulfilled v)) [[], [news_item]] \<and>
   permuting (sort_inconsistent exact_engine) \<and>
   int (length (concat ([] @ [[], [news_item]]))) \<le> 10 \<and>
   (\<exists>out. discoverContent exact_engine 0 env_reddit_down 10 [Src_reddit, Src_twitter, Src_news]
            = Some out \<and> mset out = {#news_item#}) \<and>
   Pending \<in> set (promises env_reddit_hangs 10 [Src_reddit, Src_twitter, Src_news]) \<and>
   discoverContent exact_engine 0 env_reddit_hangs 10 [Src_reddit, Src_twitter, Src_news] = None"
proof -
  have p: "promises env_reddit_down 10 [Src_reddit, Src_twitter, Src_news]
     = map (\<lambda>v. Settles (Fulfilled v)) [] @ Settles (Rejected ''Reddit API error'')
         # map (\<lambda>v. Settles (Fulfilled v)) [[], [news_item]]"
    by (simp add: promises_def env_reddit_down_def discoverFromTwitter_def)
  have h: "Pending \<in> set (promises env_reddit_hangs 10 [Src_reddit, Src_twitter, Src_news])"
    by (simp add: promises_def env_reddit_hangs_def discoverFromTwitter_def)
  from C8_partial_failure [OF p permuting_exact, of 0 env_reddit_hangs 10
      "[Src_reddit, Src_twitter, Src_news]"] p h permuting_exact
  show ?thesis by auto
qed

text \<open>
  Bounds of the two quality functions.
\<close>

lemma reddit_quality_le_1: "calculateRedditQuality now post \<le> 1"
  by (simp add: calculateRedditQuality_def Let_def)

lemma reddit_quality_ge_0:
  assumes "0 \<le> score_p post"
  shows "0 \<le> calculateRedditQuality now post"
proof -
  define a where "a = min (real_of_int (score_p post) / 1000) 0.4"
  define b where
    "b = (if num_comments post > 0 then min (real_of_int (num_comments post) / 100) 0.3 else 0)"
  define c where "c = (if is_video post \<or> is_image_url (url post) then 0.2 else (0::real))"
  define d where
    "d = (if hoursOld_reddit now post < 24 then 0.1 * (1 - hoursOld_reddit now post / 24) else 0)"
  have q: "calculateRedditQuality now post = min (a + b + c + d) 1"
    by (simp add: calculateRedditQuality_def Let_def a_def b_def c_def d_def)
  have "0 \<le> a" using assms by (simp add: a_def)
  moreover have "0 \<le> b" by (simp add: b_def)
  moreover have "0 \<le> c" by (simp add: c_def)
  moreover have "0 \<le> d" by (simp add: d_def)
  ultimately have "0 \<le> a + b + c + d" by linarith
  then show ?thesis by (simp add: q)
qed

lemma news_quality_bounds:
  "1 / 2 \<le> calculateNewsQuality now article \<and> calculateNewsQuality now article \<le> 1"
proof -
  define b where "b = (if truthy (urlToImage article) then 0.2 else (0::real))"
  define c where
    "c = (if list_ex (\<lambda>src. str_includes (toLowerCase (source_name article)) src) reputableSources
          then 0.2 else (0::real))"
  define d where
    "d = (case publishedAt article of
            None \<Rightarrow> 0
          | Some t \<Rightarrow>
              (if real_of_int (now - t) / (1000 * 60 * 60) < 48
               then 0.1 * (1 - (real_of_int (now - t) / (1000 * 60 * 60)) / 48) else 0))"
  have q: "calculateNewsQuality now article = min (0.5 + b + c + d) 1"
    by (simp add: calculateNewsQuality_def Let_def b_def c_def d_def split: option.splits)
  have "0 \<le> b" by (simp add: b_def)
  moreover have "0 \<le> c" by (simp add: c_def)
  moreover have "0 \<le> d" by (simp add: d_def split: option.splits)
  ultimately have "1 / 2 \<le> 0.5 + b + c + d" by simp
  then show ?thesis by (simp add: q)
qed

text \<open>
  \<^verbatim>\<open>calculateRedditQuality\<close> is private, and \<^verbatim>\<open>parseRedditContent\<close>, its one caller, scores
  the posts that pass its filter, which asks for a score above 10. A post with a negative
  score is dropped there; it is for such a post only that the clamp from above of the
  scorer would not keep the result in the interval.
\<close>

lemma negative_score_is_dropped:
  "parseRedditContent now [post_scored (- 1000)] sub = [] \<and>
   calculateRedditQuality 86400000 (post_scored (- 1000)) = - 4 / 5"
  by (simp add: parseRedditContent_def reddit_keep_def calculateRedditQuality_def Let_def
      post_scored_def hoursOld_reddit_def)

text \<open>
  C9: the quality of a news item lies in \<open>[0, 1]\<close> for every article; every item that
  \<^verbatim>\<open>parseRedditContent\<close> produces from any posts has a quality in \<open>[0, 1]\<close>, and so has
  every post that passes its filter, and indeed every post whose score is not negative
  (zero included), whatever its comment count, age and media.
\<close>

theorem C9_quality_in_unit_interval:
  "0 \<le> calculateNewsQuality now article \<and> calculateNewsQuality now article \<le> 1 \<and>
   (\<forall>item \<in> set (parseRedditContent now posts sub). 0 \<le> quality item \<and> quality item \<le> 1) \<and>
   (reddit_keep post \<longrightarrow>
      0 \<le> calculateRedditQuality now post \<and> calculateRedditQuality now post \<le> 1) \<and>
   (0 \<le> score_p post \<longrightarrow>
      0 \<le> calculateRedditQuality now post \<and> calculateRedditQuality now post \<le> 1)"
proof -
  have r: "0 \<le> calculateRedditQuality now p \<and> calculateRedditQuality now p \<le> 1"
    if "0 \<le> score_p p" for p
    using that reddit_quality_ge_0 [of p now] reddit_quality_le_1 [of now p] by simp
  have k: "0 \<le> score_p p" if "reddit_keep p" for p
    using that by (simp add: reddit_keep_def)
  have "0 \<le> quality item \<and> quality item \<le> 1"
    if "item \<in> set (parseRedditContent now posts sub)" for item
  proof -
    from that obtain p where p: "reddit_keep p" and item: "item = reddit_item now sub p"
      by (auto simp: parseRedditContent_def)
    from p have "0 \<le> calculateRedditQuality now p \<and> calculateRedditQuality now p \<le> 1"
      using k r by blast
    with item show ?thesis
      by (simp add: reddit_item_def Let_def)
  qed
  moreover have "0 \<le> calculateNewsQuality now article"
    using news_quality_bounds [of now article] by linarith
  ultimately show ?thesis
    using news_quality_bounds [of now article] r [of post] k [of post]
    by blast
qed

text \<open>
  Witness for C9: a post with score 500 and an article without image or date.
\<close>

theorem C9_witness:
  "reddit_keep (post_scored 500) \<and> 0 \<le> score_p (post_scored 500) \<and>
   reddit_item 0 ''cats'' (post_scored 500) \<in> set (parseRedditContent 0 [post_scored 500] ''cats'') \<and>
   0 \<le> calculateRedditQuality 0 (post_scored 500) \<and>
   calculateRedditQuality 0 (post_scored 500) \<le> 1 \<and>
   0 \<le> quality (reddit_item 0 ''cats'' (post_scored 500)) \<and>
   quality (reddit_item 0 ''cats'' (post_scored 500)) \<le> 1 \<and>
   0 \<le> calculateNewsQuality 0 article_plain \<and> calculateNewsQuality 0 article_plain \<le> 1"
proof -
  have s: "0 \<le> score_p (post_scored 500)" "reddit_keep (post_scored 500)"
    by (simp_all add: post_scored_def reddit_keep_def)
  have m: "reddit_item 0 ''cats'' (post_scored 500)
      \<in> set (parseRedditContent 0 [post_scored 500] ''cats'')"
    by (simp add: parseRedditContent_def reddit_keep_def post_scored_def)
  from C9_quality_in_unit_interval [of 0 article_plain "[post_scored 500]" "''cats''"
      "post_scored 500"] s m
  show ?thesis by blast
qed

end
